theory Spec2Isabelle
  imports Main
begin

section \<open>Gokuro: statistics and progress synchronisation\<close>

text \<open>
  A shallow embedding of the stats logic (stats.js), the client synchronisation logic
  (user.js), the progress store of the application (app.js) and the two server handlers
  (api/sync.js, api/stats.js).

  Conventions of the embedding.
  \<^item> A calendar date string \<open>YYYY-MM-DD\<close> is represented by its day number (an \<open>int\<close>).
    \<open>new Date(s)\<close> of such a string is midnight UTC of that day, so the difference of two
    such dates in milliseconds, divided by \<open>1000 * 60 * 60 * 24\<close> and floored, is the
    difference of the day numbers, and string equality is equality of day numbers.
  \<^item> An instant (\<open>updatedAt\<close>, \<open>updated_at\<close>, \<open>client_updated_at\<close>) is its number of
    milliseconds since the epoch.
  \<^item> A field that is \<open>null\<close> or \<open>undefined\<close> is \<open>None\<close>; the code tests both the same way
    wherever the two can occur.
  \<^item> The clock (\<open>Date.now()\<close>, \<open>new Date()\<close>, SQL \<open>NOW()\<close>) is a parameter.
\<close>

subsection \<open>stats.js: the stats record and its storage\<close>

type_synonym date = int

record stats =
  grid_size :: string
  best_time_seconds :: "int option"
  best_time_date :: "string option"
  current_streak_days :: int
  max_streak_days :: int
  last_completed_date :: "date option"
  max_streak_date :: "date option"

definition getEmptyStats :: "string \<Rightarrow> stats" where
  "getEmptyStats gridSize =
     \<lparr> grid_size = gridSize,
       best_time_seconds = None,
       best_time_date = None,
       current_streak_days = 0,
       max_streak_days = 0,
       last_completed_date = None,
       max_streak_date = None \<rparr>"

text \<open>The object stored under \<open>gokuro_user_stats\<close>: a map from grid size to stats.\<close>

type_synonym stats_storage = "string \<rightharpoonup> stats"

definition getStatsForGrid :: "stats_storage \<Rightarrow> string \<Rightarrow> stats \<times> stats_storage" where
  "getStatsForGrid allStats gridSize =
     (case allStats gridSize of
        None \<Rightarrow> (getEmptyStats gridSize, allStats(gridSize \<mapsto> getEmptyStats gridSize))
      | Some s \<Rightarrow> (s, allStats))"

definition saveStatsForGrid :: "stats_storage \<Rightarrow> string \<Rightarrow> stats \<Rightarrow> stats_storage" where
  "saveStatsForGrid allStats gridSize s = allStats(gridSize \<mapsto> s)"

subsection \<open>stats.js: updateStatsOnCompletion\<close>

text \<open>\<open>s.split(c)\<close> for a one-character separator: the list of segments, never empty.\<close>

fun splitOn :: "char \<Rightarrow> string \<Rightarrow> string list" where
  "splitOn c [] = [[]]"
| "splitOn c (x # xs) =
     (if x = c then [] # splitOn c xs
      else (case splitOn c xs of
              [] \<Rightarrow> [[x]]
            | seg # segs \<Rightarrow> (x # seg) # segs))"

record changes =
  newPersonalBest :: bool
  streakIncreased :: bool
  newMaxStreak :: bool

text \<open>The block "Update Personal Best".\<close>

definition updatePersonalBest ::
  "int \<Rightarrow> bool \<Rightarrow> string \<Rightarrow> stats \<times> changes \<Rightarrow> stats \<times> changes" where
  "updatePersonalBest elapsedSeconds isPristine nowIso sc =
     (case sc of (st, ch) \<Rightarrow>
        if isPristine then
          (case best_time_seconds st of
             None \<Rightarrow>
               (st\<lparr>best_time_seconds := Some elapsedSeconds, best_time_date := Some nowIso\<rparr>,
                ch\<lparr>newPersonalBest := True\<rparr>)
           | Some best \<Rightarrow>
               if elapsedSeconds < best then
                 (st\<lparr>best_time_seconds := Some elapsedSeconds, best_time_date := Some nowIso\<rparr>,
                  ch\<lparr>newPersonalBest := True\<rparr>)
               else (st, ch))
        else (st, ch))"

text \<open>The test \<open>current_streak_days > max_streak_days\<close> and its three assignments.\<close>

definition updateMaxStreak :: "date \<Rightarrow> stats \<times> changes \<Rightarrow> stats \<times> changes" where
  "updateMaxStreak today sc =
     (case sc of (st, ch) \<Rightarrow>
        if current_streak_days st > max_streak_days st then
          (st\<lparr>max_streak_days := current_streak_days st, max_streak_date := Some today\<rparr>,
           ch\<lparr>newMaxStreak := True\<rparr>)
        else (st, ch))"

text \<open>The block "Update Streak".\<close>

definition updateStreak :: "date \<Rightarrow> stats \<times> changes \<Rightarrow> stats \<times> changes" where
  "updateStreak today sc =
     (case sc of (st, ch) \<Rightarrow>
        (case last_completed_date st of
           None \<Rightarrow>
             updateMaxStreak today
               (st\<lparr>current_streak_days := 1, last_completed_date := Some today\<rparr>,
                ch\<lparr>streakIncreased := True\<rparr>)
         | Some lastCompleted \<Rightarrow>
             if lastCompleted = today then (st, ch)
             else
               (let daysDiff = today - lastCompleted in
                if daysDiff = 1 then
                  updateMaxStreak today
                    (st\<lparr>current_streak_days := current_streak_days st + 1,
                        last_completed_date := Some today\<rparr>,
                     ch\<lparr>streakIncreased := True\<rparr>)
                else if daysDiff > 1 then
                  (st\<lparr>current_streak_days := 1, last_completed_date := Some today\<rparr>,
                   ch\<lparr>streakIncreased := False\<rparr>)
                else (st, ch))))"

text \<open>
  \<open>updateStatsOnCompletion\<close> returns \<open>null\<close> (\<open>None\<close>) or \<open>{stats, changes}\<close>, and the storage
  it leaves. \<open>nowIso\<close> is \<open>new Date().toISOString()\<close> and \<open>today\<close> its date part. The call of
  \<open>window.syncStatsToServer\<close> at the end concerns the server only.
\<close>

definition updateStatsOnCompletion ::
  "stats_storage \<Rightarrow> string \<Rightarrow> int \<Rightarrow> bool \<Rightarrow> string \<Rightarrow> date \<Rightarrow>
   (stats \<times> changes) option \<times> stats_storage" where
  "updateStatsOnCompletion allStats puzzleId elapsedSeconds isPristine nowIso today =
     (let parts = splitOn CHR ''-'' puzzleId in
      if length parts < 4 then (None, allStats)
      else
        (let gridSize = last parts;
             (st0, allStats1) = getStatsForGrid allStats gridSize;
             ch0 = \<lparr> newPersonalBest = False, streakIncreased = False, newMaxStreak = False \<rparr>;
             sc1 = updatePersonalBest elapsedSeconds isPristine nowIso (st0, ch0);
             sc2 = updateStreak today sc1
         in (Some sc2, saveStatsForGrid allStats1 gridSize (fst sc2))))"

text \<open>
  A sequence of completion events, each with its own clock reading, processed in order:
  \<open>(puzzleId, elapsedSeconds, isPristine, nowIso, today)\<close>.
\<close>

type_synonym completion = "string \<times> int \<times> bool \<times> string \<times> date"

fun runCompletions :: "stats_storage \<Rightarrow> completion list \<Rightarrow> stats_storage" where
  "runCompletions allStats [] = allStats"
| "runCompletions allStats ((puzzleId, elapsedSeconds, isPristine, nowIso, today) # evs) =
     runCompletions
       (snd (updateStatsOnCompletion allStats puzzleId elapsedSeconds isPristine nowIso today))
       evs"

subsection \<open>user.js: mergeStats\<close>

text \<open>
  \<open>mergeStats(local, remote)\<close> starts with \<open>local || {}\<close> and \<open>remote || {}\<close>. It reads the
  fields of the empty object \<open>{}\<close> only through \<open>!== null && !== undefined\<close>, \<open>|| 0\<close>,
  \<open>||\<close> on strings and truthiness, so \<open>{}\<close> is the record below.
\<close>

definition emptyObject :: stats where
  "emptyObject =
     \<lparr> grid_size = [],
       best_time_seconds = None,
       best_time_date = None,
       current_streak_days = 0,
       max_streak_days = 0,
       last_completed_date = None,
       max_streak_date = None \<rparr>"

definition mergeStats :: "stats option \<Rightarrow> stats option \<Rightarrow> stats" where
  "mergeStats local remote =
     (let localData = (case local of None \<Rightarrow> emptyObject | Some l \<Rightarrow> l);
          remoteData = (case remote of None \<Rightarrow> emptyObject | Some r \<Rightarrow> r);
          merged0 =
            \<lparr> grid_size =
                (if grid_size localData \<noteq> [] then grid_size localData
                 else if grid_size remoteData \<noteq> [] then grid_size remoteData
                 else ''unknown''),
              best_time_seconds = None,
              best_time_date = None,
              current_streak_days = 0,
              max_streak_days = 0,
              last_completed_date = None,
              max_streak_date = None \<rparr>;
          merged1 =
            (case (best_time_seconds localData, best_time_seconds remoteData) of
               (Some l, Some r) \<Rightarrow>
                 if l < r then
                   merged0\<lparr>best_time_seconds := Some l,
                           best_time_date := best_time_date localData\<rparr>
                 else
                   merged0\<lparr>best_time_seconds := Some r,
                           best_time_date := best_time_date remoteData\<rparr>
             | (Some l, None) \<Rightarrow>
                 merged0\<lparr>best_time_seconds := Some l,
                         best_time_date := best_time_date localData\<rparr>
             | (None, Some r) \<Rightarrow>
                 merged0\<lparr>best_time_seconds := Some r,
                         best_time_date := best_time_date remoteData\<rparr>
             | (None, None) \<Rightarrow> merged0);
          merged2 =
            (case (last_completed_date localData, last_completed_date remoteData) of
               (Some localLast, Some remoteLast) \<Rightarrow>
                 if localLast \<ge> remoteLast then
                   merged1\<lparr>current_streak_days := current_streak_days localData,
                           last_completed_date := last_completed_date localData\<rparr>
                 else
                   merged1\<lparr>current_streak_days := current_streak_days remoteData,
                           last_completed_date := last_completed_date remoteData\<rparr>
             | (Some localLast, None) \<Rightarrow>
                 merged1\<lparr>current_streak_days := current_streak_days localData,
                         last_completed_date := last_completed_date localData\<rparr>
             | (None, Some remoteLast) \<Rightarrow>
                 merged1\<lparr>current_streak_days := current_streak_days remoteData,
                         last_completed_date := last_completed_date remoteData\<rparr>
             | (None, None) \<Rightarrow> merged1);
          localMax = max_streak_days localData;
          remoteMax = max_streak_days remoteData
      in if localMax > remoteMax then
           merged2\<lparr>max_streak_days := max_streak_days localData,
                   max_streak_date := max_streak_date localData\<rparr>
         else
           merged2\<lparr>max_streak_days := remoteMax,
                   max_streak_date := max_streak_date remoteData\<rparr>)"

subsection \<open>api/stats.js: the merge of the POST handler\<close>

text \<open>
  The handler merges the \<open>stats\<close> of the request body with the row \<open>existingStats\<close> of the
  table \<open>user_stats\<close> (\<open>None\<close> when the user has no row for the grid size) and upserts the
  result. \<open>existingStats?.f\<close> of an absent row is \<open>undefined\<close>.
\<close>

definition statsHandlerMerge :: "string \<Rightarrow> stats option \<Rightarrow> stats \<Rightarrow> stats" where
  "statsHandlerMerge gridSize existingStats clientStats =
     (let mergedStats0 = getEmptyStats gridSize;
          existingBest = (case existingStats of None \<Rightarrow> None | Some ex \<Rightarrow> best_time_seconds ex);
          mergedStats1 =
            (case existingBest of
               Some eb \<Rightarrow>
                 (case best_time_seconds clientStats of
                    None \<Rightarrow>
                      mergedStats0\<lparr>best_time_seconds := Some eb,
                                  best_time_date := Option.bind existingStats best_time_date\<rparr>
                  | Some cb \<Rightarrow>
                      if eb < cb then
                        mergedStats0\<lparr>best_time_seconds := Some eb,
                                    best_time_date := Option.bind existingStats best_time_date\<rparr>
                      else
                        mergedStats0\<lparr>best_time_seconds := Some cb,
                                    best_time_date := best_time_date clientStats\<rparr>)
             | None \<Rightarrow>
                 (case best_time_seconds clientStats of
                    None \<Rightarrow> mergedStats0
                  | Some cb \<Rightarrow>
                      mergedStats0\<lparr>best_time_seconds := Some cb,
                                  best_time_date := best_time_date clientStats\<rparr>));
          serverLastCompleted = Option.bind existingStats last_completed_date;
          serverStreak = (case existingStats of None \<Rightarrow> 0 | Some ex \<Rightarrow> current_streak_days ex);
          mergedStats2 =
            (case (last_completed_date clientStats, serverLastCompleted) of
               (Some c, Some s) \<Rightarrow>
                 if c \<ge> s then
                   mergedStats1\<lparr>current_streak_days := current_streak_days clientStats,
                               last_completed_date := Some c\<rparr>
                 else
                   mergedStats1\<lparr>current_streak_days := serverStreak,
                               last_completed_date := Some s\<rparr>
             | (Some c, None) \<Rightarrow>
                 mergedStats1\<lparr>current_streak_days := current_streak_days clientStats,
                             last_completed_date := Some c\<rparr>
             | (None, Some s) \<Rightarrow>
                 mergedStats1\<lparr>current_streak_days := serverStreak,
                             last_completed_date := Some s\<rparr>
             | (None, None) \<Rightarrow> mergedStats1);
          clientMaxStreak = max_streak_days clientStats;
          serverMaxStreak = (case existingStats of None \<Rightarrow> 0 | Some ex \<Rightarrow> max_streak_days ex)
      in if clientMaxStreak > serverMaxStreak then
           mergedStats2\<lparr>max_streak_days := max_streak_days clientStats,
                       max_streak_date := max_streak_date clientStats\<rparr>
         else
           mergedStats2\<lparr>max_streak_days := serverMaxStreak,
                       max_streak_date := Option.bind existingStats max_streak_date\<rparr>)"

subsection \<open>Reference notions for the statements about stats\<close>

text \<open>The stored best time of a grid size; \<open>None\<close> when there is no record or no best.\<close>

definition storedBest :: "stats_storage \<Rightarrow> string \<Rightarrow> int option" where
  "storedBest allStats gridSize =
     (case allStats gridSize of None \<Rightarrow> None | Some s \<Rightarrow> best_time_seconds s)"

text \<open>A completion counts for a grid size when it is pristine and its identifier is
  well formed and ends with that grid size.\<close>

definition countsFor :: "string \<Rightarrow> completion \<Rightarrow> bool" where
  "countsFor gridSize ev =
     (case ev of (puzzleId, elapsedSeconds, isPristine, nowIso, today) \<Rightarrow>
        isPristine \<and> 4 \<le> length (splitOn CHR ''-'' puzzleId)
        \<and> last (splitOn CHR ''-'' puzzleId) = gridSize)"

definition pristineTimes :: "string \<Rightarrow> completion list \<Rightarrow> int list" where
  "pristineTimes gridSize evs = map (\<lambda>ev. fst (snd ev)) (filter (countsFor gridSize) evs)"

text \<open>The minimum of an optional starting value and a list of times.\<close>

definition minOfTimes :: "int option \<Rightarrow> int list \<Rightarrow> int option" where
  "minOfTimes b ts =
     fold (\<lambda>t acc. case acc of None \<Rightarrow> Some t | Some x \<Rightarrow> Some (min x t)) ts b"

text \<open>The lower of two optional times, or the one that is there.\<close>

definition lowerOf :: "int option \<Rightarrow> int option \<Rightarrow> int option" where
  "lowerOf a b =
     (case a of
        None \<Rightarrow> b
      | Some x \<Rightarrow> (case b of None \<Rightarrow> Some x | Some y \<Rightarrow> Some (min x y)))"

definition bestOf :: "stats option \<Rightarrow> int option" where
  "bestOf A = (case A of None \<Rightarrow> None | Some s \<Rightarrow> best_time_seconds s)"

text \<open>The max streak of a side, an absent side counting as 0.\<close>

definition maxStreakOf :: "stats option \<Rightarrow> int" where
  "maxStreakOf A = (case A of None \<Rightarrow> 0 | Some s \<Rightarrow> max_streak_days s)"




subsection \<open>Progress data (app.js, user.js, api/sync.js)\<close>

text \<open>The entries of a grid: cell coordinate and letter, for the cells that are filled.\<close>

type_synonym entries = "(string \<times> string) list"

text \<open>
  The field \<open>progress_json\<close> as the code reads it: \<open>Absent\<close> is \<open>null\<close> or \<open>undefined\<close> (in a
  request and in the game state also the empty string), \<open>Malformed\<close> is a string that
  \<open>JSON.parse\<close> rejects, and \<open>Payload e\<close> is a JSON string or an object whose field \<open>entries\<close>
  is \<open>e\<close> (\<open>None\<close> when it has none). Its fields \<open>storageKey\<close> and \<open>updatedAt\<close> are read nowhere.
\<close>

datatype progress_json = Absent | Malformed | Payload "entries option"

text \<open>\<open>parsed.entries || {}\<close>\<close>

definition entriesOf :: "entries option \<Rightarrow> entries" where
  "entriesOf e = (case e of None \<Rightarrow> [] | Some es \<Rightarrow> es)"

text \<open>
  A record of the local progress store (IndexedDB, key path \<open>id\<close>). The field \<open>id\<close> is
  \<open>rec_id\<close> here, \<open>id\<close> being the identity function of HOL.
\<close>

record progress_record =
  rec_id :: string
  status :: string
  entries :: entries
  elapsedSeconds :: int
  updatedAt :: int

type_synonym progress_store = "string \<rightharpoonup> progress_record"

text \<open>
  The fields shared by a game state (\<open>getCurrentGameState()\<close>), a request body of
  \<open>POST /sync\<close> and a row of the table \<open>user_progress\<close>.
\<close>

record progress_payload =
  puzzle_id :: string
  grid_size :: string
  elapsed_seconds :: int
  was_paused :: bool
  progress_json :: progress_json
  status :: string

record remote_row = progress_payload +
  updated_at :: int

record game_state = progress_payload +
  client_updated_at :: "int option"

record sync_request = game_state +
  immediate :: bool

subsection \<open>app.js: the progress store\<close>

definition getPuzzleProgressRecord :: "progress_store \<Rightarrow> string \<Rightarrow> progress_record option" where
  "getPuzzleProgressRecord store storageKey = (if storageKey = [] then None else store storageKey)"

definition savePuzzleProgressRecord :: "progress_store \<Rightarrow> progress_record \<Rightarrow> progress_store" where
  "savePuzzleProgressRecord store record =
     (if rec_id record = [] then store else store(rec_id record \<mapsto> record))"

definition deletePuzzleProgressRecord :: "progress_store \<Rightarrow> string \<Rightarrow> progress_store" where
  "deletePuzzleProgressRecord store storageKey =
     (if storageKey = [] then store else store(storageKey := None))"

subsection \<open>app.js: persistActivePuzzle\<close>

text \<open>
  The part of the application state that \<open>persistActivePuzzle\<close> reads. \<open>activeState\<close> is
  \<open>None\<close> when the variable is \<open>null\<close>, and otherwise the cells of the grid with their
  values, the empty string for a blank cell. \<open>activeStorageKey\<close> is the result of
  \<open>getActivePuzzleStorageKey()\<close>. \<open>timerIntervalId\<close> tells whether the interval is set.
\<close>

record app_state =
  activeState :: "(string \<times> string) list option"
  activeStorageKey :: "string option"
  timerIntervalId :: bool
  timerStartTimestamp :: int
  timerAccumulatedSeconds :: int
  timerPaused :: bool
  puzzleCompleted :: bool
  progressStore :: progress_store

definition collectPuzzleEntries :: "(string \<times> string) list option \<Rightarrow> entries" where
  "collectPuzzleEntries state =
     (case state of
        None \<Rightarrow> []
      | Some cells \<Rightarrow> filter (\<lambda>cell. snd cell \<noteq> []) cells)"

definition getCurrentElapsedSeconds :: "int \<Rightarrow> app_state \<Rightarrow> int" where
  "getCurrentElapsedSeconds now app =
     (let runningSeconds =
            (if timerStartTimestamp app \<noteq> 0
             then max 0 ((now - timerStartTimestamp app) div 1000)
             else 0)
      in timerAccumulatedSeconds app + runningSeconds)"

text \<open>The status \<open>persistActivePuzzle\<close> settles on, from \<open>statusOverride\<close> and the state.\<close>

definition resolveStatus :: "int \<Rightarrow> string option \<Rightarrow> app_state \<Rightarrow> string" where
  "resolveStatus now statusOverride app =
     (let entries = collectPuzzleEntries (activeState app);
          elapsedSeconds = getCurrentElapsedSeconds now app;
          hasEntries = (entries \<noteq> []);
          hasProgress = (hasEntries \<or> elapsedSeconds > 0);
          status1 =
            (if statusOverride = Some ''paused'' \<and> \<not> hasProgress then Some ''not-started''
             else statusOverride)
      in case status1 of
           Some (c # cs) \<Rightarrow> c # cs
         | _ \<Rightarrow>
             if puzzleCompleted app then ''complete''
             else if \<not> timerIntervalId app \<and> (timerPaused app \<or> hasProgress) then
               (if hasProgress then ''paused'' else ''not-started'')
             else
               (if hasProgress then ''started'' else ''not-started''))"

text \<open>\<open>targetKey || getActivePuzzleStorageKey()\<close>; \<open>None\<close> when the result is falsy.\<close>

definition storageKeyOf :: "string option \<Rightarrow> app_state \<Rightarrow> string option" where
  "storageKeyOf targetKey app =
     (case targetKey of
        Some (c # cs) \<Rightarrow> Some (c # cs)
      | _ \<Rightarrow>
          (case activeStorageKey app of
             Some (c # cs) \<Rightarrow> Some (c # cs)
           | _ \<Rightarrow> None))"

text \<open>
  \<open>persistActivePuzzle({statusOverride, targetKey})\<close> at the time \<open>now\<close>. The pending save
  timer and the status cache of the buttons are not part of the store.
\<close>

definition persistActivePuzzle ::
  "int \<Rightarrow> string option \<Rightarrow> string option \<Rightarrow> app_state \<Rightarrow> app_state" where
  "persistActivePuzzle now statusOverride targetKey app =
     (case storageKeyOf targetKey app of
        None \<Rightarrow> app
      | Some storageKey \<Rightarrow>
          if activeState app = None then app
          else
            (let status = resolveStatus now statusOverride app
             in if status = ''not-started'' then
                  app\<lparr>progressStore :=
                        deletePuzzleProgressRecord (progressStore app) storageKey\<rparr>
                else
                  app\<lparr>progressStore :=
                        savePuzzleProgressRecord (progressStore app)
                          \<lparr> rec_id = storageKey,
                            progress_record.status = status,
                            entries = collectPuzzleEntries (activeState app),
                            elapsedSeconds = getCurrentElapsedSeconds now app,
                            updatedAt = now \<rparr>\<rparr>))"

subsection \<open>api/sync.js: the handler of \<open>POST /sync\<close>\<close>

text \<open>
  The rows of \<open>user_progress\<close> of the authenticated user; the handler is modelled from
  the point where the token is verified. \<open>(auth_id, puzzle_id)\<close> is the conflict target of
  the upsert. The column \<open>id\<close> only serves \<open>log_id\<close>, and \<open>completed_at\<close> is never read.
\<close>

type_synonym user_progress = "remote_row list"

text \<open>\<open>ORDER BY updated_at DESC LIMIT 1\<close>\<close>

fun newest :: "remote_row list \<Rightarrow> remote_row option" where
  "newest [] = None"
| "newest (r # rs) =
     (case newest rs of
        None \<Rightarrow> Some r
      | Some m \<Rightarrow> if updated_at m > updated_at r then Some m else Some r)"

text \<open>
  The responses: \<open>SAVED b\<close> is \<open>{action: 'SAVED', log_id}\<close> with \<open>b\<close> telling whether \<open>log_id\<close>
  is the id of a written row (it is \<open>null\<close> in the no-op acknowledgment); \<open>LOADED r\<close> is
  \<open>{action: 'LOADED', latest_progress: r}\<close>; \<open>BAD_REQUEST\<close> is status 400.
\<close>

datatype sync_response = SAVED bool | LOADED remote_row | BAD_REQUEST

definition validRequest :: "sync_request \<Rightarrow> bool" where
  "validRequest req =
     (puzzle_id req \<noteq> [] \<and> grid_size req \<noteq> [] \<and> progress_json req \<noteq> Absent
      \<and> status req \<noteq> [])"

definition clientHasProgress :: "sync_request \<Rightarrow> bool" where
  "clientHasProgress req =
     (case progress_json req of
        Payload e \<Rightarrow>
          elapsed_seconds req > 0 \<or> entriesOf e \<noteq> [] \<or> status req = ''complete''
      | _ \<Rightarrow> elapsed_seconds req > 0 \<or> status req = ''complete'')"

text \<open>The row written by the upsert, \<open>updated_at = NOW()\<close>.\<close>

definition rowOfRequest :: "int \<Rightarrow> sync_request \<Rightarrow> remote_row" where
  "rowOfRequest now req =
     \<lparr> puzzle_id = puzzle_id req,
       grid_size = grid_size req,
       elapsed_seconds = elapsed_seconds req,
       was_paused = was_paused req,
       progress_json = progress_json req,
       status = status req,
       updated_at = now \<rparr>"

text \<open>\<open>INSERT ... ON CONFLICT (auth_id, puzzle_id) DO UPDATE\<close>\<close>

definition upsert :: "user_progress \<Rightarrow> remote_row \<Rightarrow> user_progress" where
  "upsert db row =
     (if puzzle_id row \<in> set (map puzzle_id db)
      then map (\<lambda>r. if puzzle_id r = puzzle_id row then row else r) db
      else db @ [row])"

definition syncHandler :: "int \<Rightarrow> user_progress \<Rightarrow> sync_request \<Rightarrow> sync_response \<times> user_progress" where
  "syncHandler now db req =
     (if \<not> validRequest req then (BAD_REQUEST, db)
      else
        (let latest = newest (filter (\<lambda>r. puzzle_id r = puzzle_id req) db);
             hasProgress = clientHasProgress req;
             anyLatest =
               (if \<not> immediate req \<and> latest = None \<and> \<not> hasProgress then newest db else None)
         in case anyLatest of
              Some row \<Rightarrow> (LOADED row, db)
            | None \<Rightarrow>
                (let clientUpdatedAt = (if hasProgress then client_updated_at req else None)
                 in if immediate req \<and> \<not> hasProgress then (SAVED False, db)
                    else
                      (let clientIsNewer =
                             (case latest of
                                None \<Rightarrow> True
                              | Some l \<Rightarrow>
                                  if \<not> hasProgress then False
                                  else (case clientUpdatedAt of
                                          None \<Rightarrow> False
                                        | Some c \<Rightarrow> updated_at l < c))
                       in case latest of
                            Some l \<Rightarrow>
                              if \<not> clientIsNewer then (LOADED l, db)
                              else (SAVED True, upsert db (rowOfRequest now req))
                          | None \<Rightarrow> (SAVED True, upsert db (rowOfRequest now req))))))"

subsection \<open>api/sync-bulk.js: the handler of \<open>POST /sync-bulk\<close>\<close>

text \<open>
  The rows of the requested puzzles, newest first, entered into a map in that order. The
  handler rejects an empty list of identifiers, which \<open>bulkSyncAllPuzzles\<close> never sends.
\<close>

definition syncBulkHandler :: "user_progress \<Rightarrow> string list \<Rightarrow> (string \<rightharpoonup> remote_row)" where
  "syncBulkHandler db puzzle_ids =
     fold (\<lambda>row puzzles. puzzles(puzzle_id row \<mapsto> row))
       (sort_key (\<lambda>r. - updated_at r) (filter (\<lambda>r. puzzle_id r \<in> set puzzle_ids) db))
       Map.empty"

subsection \<open>user.js: syncProgressLogic\<close>

text \<open>
  The state of the client: \<open>authenticated\<close> stands for \<open>auth0Client && currentUserId\<close>;
  \<open>getExposed\<close> and \<open>saveExposed\<close> tell whether \<open>window.getPuzzleProgressRecord\<close> and
  \<open>window.savePuzzleProgressRecord\<close> are functions; \<open>appliedLoads\<close> lists the payloads
  handed to \<open>window.applyLoadedGameState\<close>, that is pushed into the live puzzle, latest
  first; \<open>localStore\<close> is the local progress store. The status line is not modelled.
\<close>

record client_state =
  authenticated :: bool
  isBulkSyncing :: bool
  hasLoadedInitialProgress :: bool
  getExposed :: bool
  saveExposed :: bool
  appliedLoads :: "remote_row list"
  localStore :: progress_store

text \<open>
  The test of \<open>syncProgressLogic\<close> for local progress; when \<open>progress_json\<close> does not
  parse, the \<open>catch\<close> decides that there is none.
\<close>

definition hasProgress :: "game_state \<Rightarrow> bool" where
  "hasProgress data =
     (case progress_json data of
        Malformed \<Rightarrow> False
      | Absent \<Rightarrow> elapsed_seconds data \<noteq> 0 \<or> status data = ''complete''
      | Payload e \<Rightarrow>
          entriesOf e \<noteq> [] \<or> elapsed_seconds data \<noteq> 0 \<or> status data = ''complete'')"

text \<open>
  \<open>syncProgressLogic\<close> up to the \<open>fetch\<close>: the request it sends, or \<open>None\<close> when it
  returns without sending one. \<open>data\<close> is \<open>None\<close> when \<open>getLocalProgressData()\<close> gives nothing
  or an object with \<open>error\<close>.
\<close>

definition syncRequest :: "client_state \<Rightarrow> game_state option \<Rightarrow> bool \<Rightarrow> sync_request option" where
  "syncRequest cs data isImmediate =
     (if \<not> authenticated cs then None
      else if isBulkSyncing cs then None
      else if \<not> hasLoadedInitialProgress cs then None
      else case data of
             None \<Rightarrow> None
           | Some d \<Rightarrow>
               if puzzle_id d = [] \<or> puzzle_id d = ''unknown'' then None
               else if isImmediate \<and> \<not> hasProgress d then None
               else Some
                 \<lparr> puzzle_id = puzzle_id d,
                   grid_size = grid_size d,
                   elapsed_seconds = elapsed_seconds d,
                   was_paused = was_paused d,
                   progress_json = progress_json d,
                   status = status d,
                   client_updated_at = client_updated_at d,
                   immediate = isImmediate \<rparr>)"

text \<open>\<open>nowData?.puzzle_id || currentPuzzleId\<close>, read again after the response arrived.\<close>

definition nowPuzzleId :: "string \<Rightarrow> game_state option \<Rightarrow> string" where
  "nowPuzzleId currentPuzzleId nowData =
     (case nowData of
        None \<Rightarrow> currentPuzzleId
      | Some nd \<Rightarrow> if puzzle_id nd \<noteq> [] then puzzle_id nd else currentPuzzleId)"

text \<open>
  \<open>window.applyLoadedGameState\<close> is a function of app.js that is not among the sources.
  What it does to the local store is a parameter here, of the type below: given the
  payload, it maps the store before the call to the store after it.
\<close>

type_synonym app_apply = "remote_row \<Rightarrow> progress_store \<Rightarrow> progress_store"

text \<open>
  \<open>applyLoadedGameState(data)\<close> of user.js: it calls \<open>window.applyLoadedGameState\<close> when
  that is a function (\<open>Some\<close>), and only logs an error otherwise (\<open>None\<close>).
\<close>

definition applyLoadedGameState ::
  "app_apply option \<Rightarrow> remote_row \<Rightarrow> client_state \<Rightarrow> client_state" where
  "applyLoadedGameState windowApply data cs =
     (case windowApply of
        None \<Rightarrow> cs
      | Some f \<Rightarrow>
          cs\<lparr>appliedLoads := data # appliedLoads cs,
             localStore := f data (localStore cs)\<rparr>)"

text \<open>\<open>syncProgressLogic\<close> from the response on. A 400 is thrown and caught.\<close>

definition applySyncResult ::
  "app_apply option \<Rightarrow> client_state \<Rightarrow> string \<Rightarrow> game_state option \<Rightarrow> bool \<Rightarrow>
   sync_response \<Rightarrow> client_state" where
  "applySyncResult windowApply cs currentPuzzleId nowData isInitialLoad result =
     (case result of
        LOADED latest_progress \<Rightarrow>
          (let loadedPuzzleId = puzzle_id latest_progress;
               shouldApplyLoad =
                 (isInitialLoad \<or> loadedPuzzleId = nowPuzzleId currentPuzzleId nowData)
           in if shouldApplyLoad then
                (applyLoadedGameState windowApply latest_progress cs)
                  \<lparr>hasLoadedInitialProgress := True\<rparr>
              else cs)
      | SAVED b \<Rightarrow> cs
      | BAD_REQUEST \<Rightarrow> cs)"

text \<open>
  The whole of \<open>syncProgressLogic(isImmediate, isInitialLoad)\<close> against the server: the
  client state and the server rows it leaves. \<open>now\<close> is the clock of the server.
\<close>

definition syncProgressLogic ::
  "app_apply option \<Rightarrow> int \<Rightarrow> client_state \<Rightarrow> user_progress \<Rightarrow> game_state option \<Rightarrow>
   game_state option \<Rightarrow> bool \<Rightarrow> bool \<Rightarrow> client_state \<times> user_progress" where
  "syncProgressLogic windowApply now cs db data nowData isImmediate isInitialLoad =
     (case syncRequest cs data isImmediate of
        None \<Rightarrow> (cs, db)
      | Some req \<Rightarrow>
          (let (result, db') = syncHandler now db req
           in (applySyncResult windowApply cs (puzzle_id req) nowData isInitialLoad result,
               db')))"

subsection \<open>user.js: the loop of bulkSyncAllPuzzles\<close>

datatype error = SyntaxError | TypeError | UploadFailed

definition getLocalPuzzleData :: "client_state \<Rightarrow> string \<Rightarrow> progress_record option" where
  "getLocalPuzzleData cs puzzleId =
     (if getExposed cs then getPuzzleProgressRecord (localStore cs) puzzleId else None)"

definition localHasProgress :: "progress_record option \<Rightarrow> bool" where
  "localHasProgress localData =
     (case localData of
        None \<Rightarrow> False
      | Some l \<Rightarrow>
          entries l \<noteq> [] \<or> elapsedSeconds l > 0 \<or> progress_record.status l = ''complete'')"

text \<open>The record \<open>updateLocalPuzzleData\<close> builds from a remote row that parses.\<close>

definition recordToSave :: "string \<Rightarrow> remote_row \<Rightarrow> progress_record" where
  "recordToSave puzzleId remoteData =
     \<lparr> rec_id = puzzleId,
       progress_record.status =
         (if status remoteData = [] then ''not-started'' else status remoteData),
       entries =
         (case progress_json remoteData of Payload e \<Rightarrow> entriesOf e | _ \<Rightarrow> []),
       elapsedSeconds = elapsed_seconds remoteData,
       updatedAt = updated_at remoteData \<rparr>"

text \<open>
  \<open>updateLocalPuzzleData\<close>: the exception it throws, if any, and the client state it
  leaves. The read after the write throws when \<open>window.getPuzzleProgressRecord\<close> is missing.
\<close>

definition updateLocalPuzzleData ::
  "client_state \<Rightarrow> string \<Rightarrow> remote_row \<Rightarrow> error option \<times> client_state" where
  "updateLocalPuzzleData cs puzzleId remoteData =
     (if \<not> saveExposed cs then (None, cs)
      else if progress_json remoteData = Malformed then (Some SyntaxError, cs)
      else
        (let cs' = cs\<lparr>localStore :=
                        savePuzzleProgressRecord (localStore cs) (recordToSave puzzleId remoteData)\<rparr>
         in if getExposed cs then (None, cs') else (Some TypeError, cs')))"

text \<open>
  \<open>uploadPuzzleToServer\<close>: the request goes through the handler of \<open>POST /sync\<close>; a
  response that is not ok is thrown.
\<close>

definition uploadPuzzleToServer ::
  "int \<Rightarrow> int \<Rightarrow> user_progress \<Rightarrow> string \<Rightarrow> progress_record \<Rightarrow> error option \<times> user_progress" where
  "uploadPuzzleToServer clientNow serverNow db puzzleId localData =
     (let parts = splitOn CHR ''-'' puzzleId;
          gridSize = (if last parts = [] then ''unknown'' else last parts);
          timestamp = (if updatedAt localData \<noteq> 0 then updatedAt localData else clientNow);
          payload =
            \<lparr> puzzle_id = puzzleId,
              grid_size = gridSize,
              elapsed_seconds = elapsedSeconds localData,
              was_paused = (progress_record.status localData = ''paused''),
              progress_json = Payload (Some (entries localData)),
              status =
                (if progress_record.status localData = [] then ''not-started''
                 else progress_record.status localData),
              client_updated_at = Some timestamp,
              immediate = False \<rparr>;
          (result, db') = syncHandler serverNow db payload
      in (if result = BAD_REQUEST then Some UploadFailed else None, db'))"

text \<open>What the loop body decides for one puzzle.\<close>

datatype bulk_action = UPLOAD | DOWNLOAD | NONE

definition bulkAction :: "progress_record option \<Rightarrow> remote_row option \<Rightarrow> bulk_action" where
  "bulkAction localData remoteData =
     (if remoteData = None \<and> localHasProgress localData then UPLOAD
      else if remoteData \<noteq> None then DOWNLOAD
      else NONE)"

record bulk_pass =
  bclient :: client_state
  bserver :: user_progress
  downloadedCount :: nat
  uploadedCount :: nat

text \<open>
  The body of the loop for one \<open>puzzleId\<close>, with its \<open>try\<close>/\<open>catch\<close>: an exception ends the
  body and leaves what was done before it. The debug logging parses the remote
  \<open>progress_json\<close> before anything is decided, so a row that does not parse is skipped.
\<close>

definition bulkSyncPuzzle ::
  "int \<Rightarrow> int \<Rightarrow> (string \<rightharpoonup> remote_row) \<Rightarrow> bulk_pass \<Rightarrow> string \<Rightarrow> bulk_pass" where
  "bulkSyncPuzzle clientNow serverNow remotePuzzles st puzzleId =
     (let localData = getLocalPuzzleData (bclient st) puzzleId;
          remoteData = remotePuzzles puzzleId
      in if (case remoteData of Some r \<Rightarrow> progress_json r = Malformed | None \<Rightarrow> False) then st
         else
           (case bulkAction localData remoteData of
              UPLOAD \<Rightarrow>
                (case localData of
                   None \<Rightarrow> st
                 | Some l \<Rightarrow>
                     (let (err, db') =
                            uploadPuzzleToServer clientNow serverNow (bserver st) puzzleId l
                      in if err = None
                         then st\<lparr>bserver := db', uploadedCount := Suc (uploadedCount st)\<rparr>
                         else st\<lparr>bserver := db'\<rparr>))
            | DOWNLOAD \<Rightarrow>
                (case remoteData of
                   None \<Rightarrow> st
                 | Some r \<Rightarrow>
                     (let (err, cs') = updateLocalPuzzleData (bclient st) puzzleId r
                      in if err = None
                         then st\<lparr>bclient := cs', downloadedCount := Suc (downloadedCount st)\<rparr>
                         else st\<lparr>bclient := cs'\<rparr>))
            | NONE \<Rightarrow> st))"

text \<open>\<open>for (const puzzleId of puzzleIds)\<close> on the rows fetched before the loop.\<close>

definition bulkSyncLoop ::
  "int \<Rightarrow> int \<Rightarrow> (string \<rightharpoonup> remote_row) \<Rightarrow> bulk_pass \<Rightarrow> string list \<Rightarrow> bulk_pass" where
  "bulkSyncLoop clientNow serverNow remotePuzzles st puzzleIds =
     foldl (bulkSyncPuzzle clientNow serverNow remotePuzzles) st puzzleIds"

subsection \<open>Reference notions for the statements about progress\<close>

text \<open>The entries a \<open>progress_json\<close> carries.\<close>

definition payloadEntries :: "progress_json \<Rightarrow> entries" where
  "payloadEntries pj = (case pj of Payload e \<Rightarrow> entriesOf e | _ \<Rightarrow> [])"

text \<open>No progress: no entries, zero elapsed seconds, status not complete.\<close>

definition noLocalProgress :: "'a progress_payload_scheme \<Rightarrow> bool" where
  "noLocalProgress d =
     (payloadEntries (progress_json d) = [] \<and> elapsed_seconds d = 0
      \<and> status d \<noteq> ''complete'')"

text \<open>A record with empty entries, zero elapsed seconds and status not-started.\<close>

definition emptyNotStarted :: "progress_record \<Rightarrow> bool" where
  "emptyNotStarted r =
     (entries r = [] \<and> elapsedSeconds r = 0 \<and> progress_record.status r = ''not-started'')"

definition storeInvariant :: "progress_store \<Rightarrow> bool" where
  "storeInvariant store = (\<forall>k r. store k = Some r \<longrightarrow> \<not> emptyNotStarted r)"

text \<open>
  Modelled from the spec: \<open>window.applyLoadedGameState\<close> of app.js, which is not among the
  sources. Section 4.1 of the specification: LOAD writes the remote payload into the
  local store. It stands for the application in the examples only; every general
  statement below holds for any function in its place.
\<close>

definition storeLoadedPayload :: app_apply where
  "storeLoadedPayload data store =
     savePuzzleProgressRecord store (recordToSave (puzzle_id data) data)"

subsection \<open>Example data\<close>

text \<open>A signed-in client after its first bulk sync, with an empty local store.\<close>

definition exampleClient :: client_state where
  "exampleClient =
     \<lparr> authenticated = True,
       isBulkSyncing = False,
       hasLoadedInitialProgress = True,
       getExposed = True,
       saveExposed = True,
       appliedLoads = [],
       localStore = Map.empty \<rparr>"

text \<open>The game state of an untouched puzzle, and the request a debounced sync makes of it.\<close>

definition untouchedPuzzle :: game_state where
  "untouchedPuzzle =
     \<lparr> puzzle_id = ''2025-11-20-5x5'',
       grid_size = ''5x5'',
       elapsed_seconds = 0,
       was_paused = False,
       progress_json = Payload (Some []),
       status = ''not-started'',
       client_updated_at = Some 1763634600000 \<rparr>"

definition untouchedRequest :: sync_request where
  "untouchedRequest =
     \<lparr> puzzle_id = ''2025-11-20-5x5'',
       grid_size = ''5x5'',
       elapsed_seconds = 0,
       was_paused = False,
       progress_json = Payload (Some []),
       status = ''not-started'',
       client_updated_at = Some 1763634600000,
       immediate = False \<rparr>"

text \<open>The row the server makes of that request at the time 1763634601000.\<close>

definition untouchedRow :: remote_row where
  "untouchedRow =
     \<lparr> puzzle_id = ''2025-11-20-5x5'',
       grid_size = ''5x5'',
       elapsed_seconds = 0,
       was_paused = False,
       progress_json = Payload (Some []),
       status = ''not-started'',
       updated_at = 1763634601000 \<rparr>"

text \<open>A row of the puzzle of the day before, paused after 30 seconds with one letter.\<close>

definition otherRow :: remote_row where
  "otherRow =
     \<lparr> puzzle_id = ''2025-11-19-5x5'',
       grid_size = ''5x5'',
       elapsed_seconds = 30,
       was_paused = True,
       progress_json = Payload (Some [(''0-0'', ''A'')]),
       status = ''paused'',
       updated_at = 1763550000000 \<rparr>"

text \<open>A request with progress for the puzzle of \<open>otherRow\<close>, edited after that row was written.\<close>

definition startedRequest :: sync_request where
  "startedRequest =
     \<lparr> puzzle_id = ''2025-11-19-5x5'',
       grid_size = ''5x5'',
       elapsed_seconds = 45,
       was_paused = False,
       progress_json = Payload (Some [(''0-0'', ''A''), (''0-1'', ''B'')]),
       status = ''started'',
       client_updated_at = Some 1763550060000,
       immediate = False \<rparr>"

text \<open>A local record of the puzzle of \<open>otherRow\<close> with a later timestamp than that row.\<close>

definition newerLocalRecord :: progress_record where
  "newerLocalRecord =
     \<lparr> rec_id = ''2025-11-19-5x5'',
       progress_record.status = ''started'',
       entries = [(''0-0'', ''A''), (''0-1'', ''B'')],
       elapsedSeconds = 45,
       updatedAt = 1763550060000 \<rparr>"

text \<open>An application with a blank grid of two cells and a timer that never ran.\<close>

definition blankApp :: app_state where
  "blankApp =
     \<lparr> activeState = Some [(''0-0'', ''''), (''0-1'', '''')],
       activeStorageKey = Some ''2025-11-20-5x5'',
       timerIntervalId = False,
       timerStartTimestamp = 0,
       timerAccumulatedSeconds = 0,
       timerPaused = True,
       puzzleCompleted = False,
       progressStore = Map.empty \<rparr>"

text \<open>The same application after three letters were typed and 75 seconds ran, paused.\<close>

definition pausedApp :: app_state where
  "pausedApp =
     \<lparr> activeState = Some [(''0-0'', ''A''), (''0-1'', ''''), (''1-0'', ''B''), (''1-1'', ''C'')],
       activeStorageKey = Some ''2025-11-20-5x5'',
       timerIntervalId = False,
       timerStartTimestamp = 0,
       timerAccumulatedSeconds = 75,
       timerPaused = True,
       puzzleCompleted = False,
       progressStore = Map.empty \<rparr>"

text \<open>The local record a bulk download makes of \<open>untouchedRow\<close>.\<close>

definition untouchedRecord :: progress_record where
  "untouchedRecord =
     \<lparr> rec_id = ''2025-11-20-5x5'',
       progress_record.status = ''not-started'',
       entries = [],
       elapsedSeconds = 0,
       updatedAt = 1763634601000 \<rparr>"


text \<open>A bulk pass of a client with an empty local store, the server holding \<open>untouchedRow\<close>.\<close>

definition freshPass :: bulk_pass where
  "freshPass =
     \<lparr> bclient = exampleClient,
       bserver = [untouchedRow],
       downloadedCount = 0,
       uploadedCount = 0 \<rparr>"

section \<open>Properties\<close>

subsection \<open>Splitting identifiers\<close>

lemma length_splitOn: "length (splitOn c s) = Suc (count_list s c)"
  by (induction s) (auto split: list.splits)

lemma splitOn_not_Nil: "splitOn c s \<noteq> []"
  by (induction s) (auto split: list.splits)

subsection \<open>Completion events\<close>

text \<open>
  Claim C10. A puzzle identifier with fewer than four dash-separated segments makes
  \<open>updateStatsOnCompletion\<close> return \<open>null\<close> and leave the stored stats of every grid size as
  they were: no personal best, no streak, nothing saved.
\<close>

theorem updateStatsOnCompletion_malformed:
  assumes "length (splitOn CHR ''-'' puzzleId) < 4"
  shows "updateStatsOnCompletion allStats puzzleId elapsed isPristine nowIso today
         = (None, allStats)"
  using assms by (simp add: updateStatsOnCompletion_def Let_def)

theorem updateStatsOnCompletion_malformed_witness:
  "length (splitOn CHR ''-'' ''2025-11-5x5'') < 4
   \<and> updateStatsOnCompletion Map.empty ''2025-11-5x5'' 245 True ''2025-11-20T10:30:00.000Z'' 20412
       = (None, Map.empty)"
proof -
  have h: "length (splitOn CHR ''-'' ''2025-11-5x5'') < 4" by simp
  show ?thesis
    using h updateStatsOnCompletion_malformed [OF h, of Map.empty 245 True
        "''2025-11-20T10:30:00.000Z''" 20412]
    by simp
qed







subsection \<open>Personal best\<close>

lemma updateStreak_best:
  "best_time_seconds (fst (updateStreak today sc)) = best_time_seconds (fst sc)"
  by (cases sc) (auto simp: updateStreak_def updateMaxStreak_def Let_def split: option.splits)

lemma updatePersonalBest_best:
  "best_time_seconds (fst (updatePersonalBest e p nowIso (st, ch))) =
     (if p \<and> (case best_time_seconds st of None \<Rightarrow> True | Some b \<Rightarrow> e < b)
      then Some e else best_time_seconds st)"
  by (auto simp: updatePersonalBest_def split: option.splits)

lemma step_best:
  "storedBest (snd (updateStatsOnCompletion allStats puzzleId e p nowIso today)) g =
     (if countsFor g (puzzleId, e, p, nowIso, today)
         \<and> (case storedBest allStats g of None \<Rightarrow> True | Some b \<Rightarrow> e < b)
      then Some e else storedBest allStats g)"
  by (auto simp: updateStatsOnCompletion_def Let_def getStatsForGrid_def saveStatsForGrid_def
      storedBest_def countsFor_def updateStreak_best updatePersonalBest_best getEmptyStats_def
      split: option.splits prod.splits)

lemma step_best_min:
  "storedBest (snd (updateStatsOnCompletion allStats puzzleId e p nowIso today)) g =
     (if countsFor g (puzzleId, e, p, nowIso, today)
      then minOfTimes (storedBest allStats g) [e] else storedBest allStats g)"
  unfolding step_best by (auto simp: minOfTimes_def split: option.splits)

lemma minOfTimes_Cons: "minOfTimes b (t # ts) = minOfTimes (minOfTimes b [t]) ts"
  by (simp add: minOfTimes_def)

lemma run_best:
  "storedBest (runCompletions allStats evs) g
     = minOfTimes (storedBest allStats g) (pristineTimes g evs)"
proof (induction evs arbitrary: allStats)
  case Nil
  show ?case by (simp add: pristineTimes_def minOfTimes_def)
next
  case (Cons ev evs)
  obtain puzzleId e p nowIso today where ev: "ev = (puzzleId, e, p, nowIso, today)"
    by (cases ev) auto
  show ?case
  proof (cases "countsFor g ev")
    case True
    then have "pristineTimes g (ev # evs) = e # pristineTimes g evs"
      by (simp add: pristineTimes_def ev)
    then show ?thesis
      using True Cons.IH[of "snd (updateStatsOnCompletion allStats puzzleId e p nowIso today)"]
        minOfTimes_Cons[of "storedBest allStats g" e "pristineTimes g evs"]
      by (simp add: ev step_best_min)
  next
    case False
    then have "pristineTimes g (ev # evs) = pristineTimes g evs"
      by (simp add: pristineTimes_def)
    then show ?thesis
      using False Cons.IH[of "snd (updateStatsOnCompletion allStats puzzleId e p nowIso today)"]
      by (simp add: ev step_best_min)
  qed
qed

lemma minOfTimes_Some: "minOfTimes (Some b) ts = Some (Min (insert b (set ts)))"
proof (induction ts arbitrary: b)
  case Nil
  show ?case by (simp add: minOfTimes_def)
next
  case (Cons t ts)
  have "minOfTimes (Some b) (t # ts) = minOfTimes (Some (min b t)) ts"
    by (simp add: minOfTimes_def)
  also have "\<dots> = Some (Min (insert (min b t) (set ts)))"
    by (rule Cons.IH)
  also have "Min (insert (min b t) (set ts)) = Min (insert b (set (t # ts)))"
  proof (cases "ts = []")
    case True
    then show ?thesis by (simp add: min.commute)
  next
    case False
    then show ?thesis by (simp add: min.assoc)
  qed
  finally show ?case .
qed

lemma minOfTimes_None:
  "minOfTimes None ts = (if ts = [] then None else Some (Min (set ts)))"
proof (cases ts)
  case Nil
  then show ?thesis by (simp add: minOfTimes_def)
next
  case (Cons t ts')
  have "minOfTimes None (t # ts') = minOfTimes (Some t) ts'"
    by (simp add: minOfTimes_def)
  then show ?thesis by (simp add: Cons minOfTimes_Some)
qed

lemma run_best_empty:
  "storedBest (runCompletions Map.empty evs) g =
    (if pristineTimes g evs = [] then None else Some (Min (set (pristineTimes g evs))))"
proof -
  have "storedBest Map.empty g = None"
    by (simp add: storedBest_def)
  then show ?thesis by (simp add: run_best minOfTimes_None)
qed

text \<open>
  Claim C6. One completion changes the stored best time of a grid size only when it is
  pristine (and well formed, for that grid size) and its time is strictly below the
  stored best, or there is no stored best; the new best is then its time. So after any
  sequence of completions the stored best is the minimum of the best stored before and
  of the pristine times; from empty storage it is the minimum of the pristine times, and
  there is none when no completion was pristine. A completion that is not pristine never
  enters.
\<close>

theorem best_time_is_min_of_pristine_times:
  "storedBest (snd (updateStatsOnCompletion allStats puzzleId e p nowIso today)) g =
     (if countsFor g (puzzleId, e, p, nowIso, today)
         \<and> (case storedBest allStats g of None \<Rightarrow> True | Some b \<Rightarrow> e < b)
      then Some e else storedBest allStats g)
   \<and> storedBest (runCompletions allStats evs) g
       = minOfTimes (storedBest allStats g) (pristineTimes g evs)
   \<and> storedBest (runCompletions Map.empty evs) g =
       (if pristineTimes g evs = [] then None else Some (Min (set (pristineTimes g evs))))"
  using step_best run_best run_best_empty by blast

subsection \<open>Merging stats\<close>

lemma mergeStats_best: "best_time_seconds (mergeStats A B) = lowerOf (bestOf A) (bestOf B)"
  by (auto simp: mergeStats_def Let_def lowerOf_def bestOf_def emptyObject_def
      split: option.splits)

lemma mergeStats_max: "max_streak_days (mergeStats A B) = max (maxStreakOf A) (maxStreakOf B)"
  by (auto simp: mergeStats_def Let_def maxStreakOf_def emptyObject_def
      split: option.splits)

lemma lowerOf_commute: "lowerOf a b = lowerOf b a"
  by (auto simp: lowerOf_def split: option.splits)

text \<open>
  Claim C7. For two stats records, each possibly absent, \<open>mergeStats\<close> gives the same best
  time and the same max streak in either order of its arguments: the best time is the
  lower of the two that are there, or the one that is there, or none; the max streak is
  the larger of the two, an absent side counting as 0.
\<close>

theorem mergeStats_commutative:
  "best_time_seconds (mergeStats A B) = best_time_seconds (mergeStats B A)
   \<and> max_streak_days (mergeStats A B) = max_streak_days (mergeStats B A)
   \<and> best_time_seconds (mergeStats A B) = lowerOf (bestOf A) (bestOf B)
   \<and> max_streak_days (mergeStats A B) = max (maxStreakOf A) (maxStreakOf B)"
  by (simp add: mergeStats_best mergeStats_max lowerOf_commute [of "bestOf A"] max.commute)

text \<open>The merge of the server handler agrees with it on both fields.\<close>

lemma statsHandlerMerge_best:
  "best_time_seconds (statsHandlerMerge g B A) = lowerOf (best_time_seconds A) (bestOf B)"
  by (auto simp: statsHandlerMerge_def Let_def lowerOf_def bestOf_def getEmptyStats_def
      split: option.splits)

lemma statsHandlerMerge_max:
  "max_streak_days (statsHandlerMerge g B A) = max (max_streak_days A) (maxStreakOf B)"
  by (auto simp: statsHandlerMerge_def Let_def maxStreakOf_def getEmptyStats_def
      split: option.splits)

lemma statsHandlerMerge_commutative:
  "best_time_seconds (statsHandlerMerge g (Some B) A)
     = best_time_seconds (statsHandlerMerge g (Some A) B)
   \<and> max_streak_days (statsHandlerMerge g (Some B) A)
     = max_streak_days (statsHandlerMerge g (Some A) B)"
  by (simp add: statsHandlerMerge_best statsHandlerMerge_max bestOf_def maxStreakOf_def
      lowerOf_commute [of "best_time_seconds A"] max.commute)

subsection \<open>The handler of POST /sync and syncProgressLogic\<close>

lemma noLocalProgress_hasProgress: "noLocalProgress d \<Longrightarrow> \<not> hasProgress d"
  by (auto simp: noLocalProgress_def hasProgress_def payloadEntries_def split: progress_json.splits)

lemma noLocalProgress_clientHasProgress: "noLocalProgress req \<Longrightarrow> \<not> clientHasProgress req"
  by (auto simp: noLocalProgress_def clientHasProgress_def payloadEntries_def
      split: progress_json.splits)

lemma newest_None: "newest rs = None \<longleftrightarrow> rs = []"
  by (cases rs) (auto split: option.splits)


lemma row_latest:
  assumes "newest (filter (\<lambda>r. puzzle_id r = k) db) = Some l"
  shows "k \<in> set (map puzzle_id db)"
proof -
  have "filter (\<lambda>r. puzzle_id r = k) db \<noteq> []"
    using assms newest_None [of "filter (\<lambda>r. puzzle_id r = k) db"] by auto
  then obtain r where "r \<in> set db" "puzzle_id r = k"
    by (auto simp: filter_empty_conv)
  then show ?thesis by force
qed

text \<open>
  Claim C4. An immediate sync call on a puzzle with no entries, zero elapsed seconds and
  a status other than complete sends no request: \<open>syncProgressLogic\<close> returns before the
  \<open>fetch\<close> and leaves the client state and the server rows as they were. The handler
  itself, given an immediate request without progress, writes nothing and loads nothing:
  it answers with the no-op \<open>SAVED\<close> (or rejects a request with missing fields).
\<close>

theorem immediate_sync_without_progress_is_noop:
  assumes "noLocalProgress data" and "noLocalProgress req" and "immediate req"
  shows "syncRequest cs (Some data) True = None
     \<and> syncProgressLogic windowApply now cs db (Some data) nowData True isInitialLoad = (cs, db)
     \<and> snd (syncHandler now db req) = db
     \<and> fst (syncHandler now db req) \<in> {SAVED False, BAD_REQUEST}"
proof -
  have a: "syncRequest cs (Some data) True = None"
    using noLocalProgress_hasProgress [OF assms(1)] by (simp add: syncRequest_def)
  have b: "syncHandler now db req
             = (if validRequest req then (SAVED False, db) else (BAD_REQUEST, db))"
    using noLocalProgress_clientHasProgress [OF assms(2)] assms(3)
    by (simp add: syncHandler_def Let_def)
  show ?thesis using a b by (simp add: syncProgressLogic_def)
qed

theorem immediate_sync_without_progress_is_noop_witness:
  "noLocalProgress untouchedPuzzle \<and> noLocalProgress (untouchedRequest\<lparr>immediate := True\<rparr>)
   \<and> immediate (untouchedRequest\<lparr>immediate := True\<rparr>)
   \<and> syncProgressLogic (Some storeLoadedPayload) 1763634601000 exampleClient [otherRow]
        (Some untouchedPuzzle) (Some untouchedPuzzle) True False = (exampleClient, [otherRow])
   \<and> syncHandler 1763634601000 [otherRow] (untouchedRequest\<lparr>immediate := True\<rparr>)
        = (SAVED False, [otherRow])"
proof -
  have h1: "noLocalProgress untouchedPuzzle"
    by (simp add: noLocalProgress_def untouchedPuzzle_def payloadEntries_def entriesOf_def)
  have h2: "noLocalProgress (untouchedRequest\<lparr>immediate := True\<rparr>)"
    by (simp add: noLocalProgress_def untouchedRequest_def payloadEntries_def entriesOf_def)
  have h3: "immediate (untouchedRequest\<lparr>immediate := True\<rparr>)" by simp
  have v: "validRequest (untouchedRequest\<lparr>immediate := True\<rparr>)"
    by (simp add: validRequest_def untouchedRequest_def)
  have nb: "fst (syncHandler 1763634601000 [otherRow] (untouchedRequest\<lparr>immediate := True\<rparr>))
              \<noteq> BAD_REQUEST"
    using v by (simp add: syncHandler_def Let_def split: option.splits)
  from immediate_sync_without_progress_is_noop [OF h1 h2 h3, of exampleClient
      "Some storeLoadedPayload" 1763634601000 "[otherRow]" "Some untouchedPuzzle" False]
  show ?thesis using h1 h2 h3 nb by (auto simp: prod_eq_iff)
qed

text \<open>
  Claim C2. For a request with progress, a client timestamp and a matching server row,
  the handler saves if and only if \<open>client_updated_at\<close> is strictly greater than the
  \<open>updated_at\<close> of the row: the row of that puzzle is then replaced by the payload of the
  client (its puzzle, grid size, elapsed seconds, pause flag, progress and status) with
  the time of the server, and every other row is kept. Otherwise it answers \<open>LOADED\<close> with
  the row and writes nothing.
\<close>

theorem syncHandler_newest_wins:
  assumes "validRequest req" and "clientHasProgress req"
    and "client_updated_at req = Some c"
    and "newest (filter (\<lambda>r. puzzle_id r = puzzle_id req) db) = Some l"
  shows "syncHandler now db req =
           (if updated_at l < c then
              (SAVED True,
               map (\<lambda>r. if puzzle_id r = puzzle_id req
                         then \<lparr> puzzle_id = puzzle_id req,
                                grid_size = grid_size req,
                                elapsed_seconds = elapsed_seconds req,
                                was_paused = was_paused req,
                                progress_json = progress_json req,
                                status = status req,
                                updated_at = now \<rparr>
                         else r) db)
            else (LOADED l, db))"
  using assms row_latest [OF assms(4)]
  by (simp add: syncHandler_def Let_def upsert_def rowOfRequest_def)

theorem syncHandler_newest_wins_witness:
  "validRequest startedRequest \<and> clientHasProgress startedRequest
   \<and> client_updated_at startedRequest = Some 1763550060000
   \<and> newest (filter (\<lambda>r. puzzle_id r = puzzle_id startedRequest) [untouchedRow, otherRow])
       = Some otherRow
   \<and> updated_at otherRow < 1763550060000
   \<and> syncHandler 1763550061000 [untouchedRow, otherRow] startedRequest
       = (SAVED True,
          [untouchedRow,
           \<lparr> puzzle_id = ''2025-11-19-5x5'',
             grid_size = ''5x5'',
             elapsed_seconds = 45,
             was_paused = False,
             progress_json = Payload (Some [(''0-0'', ''A''), (''0-1'', ''B'')]),
             status = ''started'',
             updated_at = 1763550061000 \<rparr>])
   \<and> syncHandler 1763550061000 [untouchedRow, otherRow\<lparr>updated_at := 1763550060000\<rparr>]
         startedRequest
       = (LOADED (otherRow\<lparr>updated_at := 1763550060000\<rparr>),
          [untouchedRow, otherRow\<lparr>updated_at := 1763550060000\<rparr>])"
proof -
  have h1: "validRequest startedRequest" by (simp add: validRequest_def startedRequest_def)
  have h2: "clientHasProgress startedRequest"
    by (simp add: clientHasProgress_def startedRequest_def)
  have h3: "client_updated_at startedRequest = Some 1763550060000"
    by (simp add: startedRequest_def)
  have h4: "newest (filter (\<lambda>r. puzzle_id r = puzzle_id startedRequest) [untouchedRow, otherRow])
              = Some otherRow"
    by (simp add: startedRequest_def otherRow_def untouchedRow_def)
  have h4': "newest (filter (\<lambda>r. puzzle_id r = puzzle_id startedRequest)
                [untouchedRow, otherRow\<lparr>updated_at := 1763550060000\<rparr>])
              = Some (otherRow\<lparr>updated_at := 1763550060000\<rparr>)"
    by (simp add: startedRequest_def otherRow_def untouchedRow_def)
  have t: "updated_at otherRow < 1763550060000" by (simp add: otherRow_def)
  have p: "puzzle_id untouchedRow \<noteq> puzzle_id startedRequest"
    "puzzle_id otherRow = puzzle_id startedRequest"
    by (simp_all add: untouchedRow_def otherRow_def startedRequest_def)
  have f: "puzzle_id startedRequest = ''2025-11-19-5x5''" "grid_size startedRequest = ''5x5''"
    "elapsed_seconds startedRequest = 45" "was_paused startedRequest = False"
    "progress_json startedRequest = Payload (Some [(''0-0'', ''A''), (''0-1'', ''B'')])"
    "status startedRequest = ''started''"
    by (simp_all add: startedRequest_def)
  from syncHandler_newest_wins [OF h1 h2 h3 h4, of 1763550061000]
    syncHandler_newest_wins [OF h1 h2 h3 h4', of 1763550061000]
  show ?thesis using h1 h2 h3 h4 t p f by simp
qed






text \<open>
  Claim C8 does not hold where it says that the payload is applied to local storage: a
  \<open>LOADED\<close> response for another puzzle, outside the initial load, is not handed to the
  application at all and leaves the whole client state as it was, the local store
  included.
\<close>

theorem loaded_for_other_puzzle_not_stored:
  "syncRequest exampleClient (Some untouchedPuzzle) False = Some untouchedRequest
   \<and> syncHandler 1763634601000 [otherRow] untouchedRequest = (LOADED otherRow, [otherRow])
   \<and> syncProgressLogic (Some storeLoadedPayload) 1763634601000 exampleClient [otherRow]
        (Some untouchedPuzzle) (Some untouchedPuzzle) False False = (exampleClient, [otherRow])
   \<and> localStore exampleClient (puzzle_id otherRow) = None"
  by (simp add: syncProgressLogic_def syncRequest_def hasProgress_def exampleClient_def
      untouchedPuzzle_def untouchedRequest_def syncHandler_def validRequest_def
      clientHasProgress_def Let_def otherRow_def applySyncResult_def nowPuzzleId_def
      entriesOf_def)

text \<open>
  Claim C8, amended. When an incremental sync returns \<open>LOADED\<close> for a puzzle other than
  the one displayed and this is not the initial load, the payload is ignored: it is not
  handed to the application, so it is neither applied to local storage nor pushed into
  the live puzzle, and the client state stays as it was. Only with the initial-load flag
  is such a response handed to the application and applied to the live puzzle.
\<close>

theorem loaded_for_other_puzzle:
  assumes "puzzle_id latest \<noteq> nowPuzzleId currentPuzzleId nowData"
  shows "applySyncResult windowApply cs currentPuzzleId nowData isInitialLoad (LOADED latest) =
           (if isInitialLoad then
              (case windowApply of
                 None \<Rightarrow> cs\<lparr>hasLoadedInitialProgress := True\<rparr>
               | Some f \<Rightarrow>
                   cs\<lparr>appliedLoads := latest # appliedLoads cs,
                      localStore := f latest (localStore cs),
                      hasLoadedInitialProgress := True\<rparr>)
            else cs)"
  using assms
  by (simp add: applySyncResult_def applyLoadedGameState_def Let_def split: option.splits)

theorem loaded_for_other_puzzle_witness:
  "puzzle_id otherRow \<noteq> nowPuzzleId ''2025-11-20-5x5'' (Some untouchedPuzzle)
   \<and> applySyncResult (Some storeLoadedPayload) exampleClient ''2025-11-20-5x5''
        (Some untouchedPuzzle) False (LOADED otherRow) = exampleClient
   \<and> appliedLoads (applySyncResult (Some storeLoadedPayload) exampleClient ''2025-11-20-5x5''
        (Some untouchedPuzzle) True (LOADED otherRow)) = [otherRow]
   \<and> localStore (applySyncResult (Some storeLoadedPayload) exampleClient ''2025-11-20-5x5''
        (Some untouchedPuzzle) True (LOADED otherRow)) ''2025-11-19-5x5''
       = Some \<lparr> rec_id = ''2025-11-19-5x5'', progress_record.status = ''paused'',
                entries = [(''0-0'', ''A'')], elapsedSeconds = 30,
                updatedAt = 1763550000000 \<rparr>"
proof -
  have h: "puzzle_id otherRow \<noteq> nowPuzzleId ''2025-11-20-5x5'' (Some untouchedPuzzle)"
    by (simp add: otherRow_def nowPuzzleId_def untouchedPuzzle_def)
  have s: "storeLoadedPayload otherRow (localStore exampleClient) ''2025-11-19-5x5''
       = Some \<lparr> rec_id = ''2025-11-19-5x5'', progress_record.status = ''paused'',
                entries = [(''0-0'', ''A'')], elapsedSeconds = 30,
                updatedAt = 1763550000000 \<rparr>"
    by (simp add: storeLoadedPayload_def savePuzzleProgressRecord_def recordToSave_def
        otherRow_def entriesOf_def)
  have a: "appliedLoads exampleClient = []" by (simp add: exampleClient_def)
  from loaded_for_other_puzzle [OF h, of "Some storeLoadedPayload" exampleClient False]
    loaded_for_other_puzzle [OF h, of "Some storeLoadedPayload" exampleClient True]
  show ?thesis using h s a by simp
qed

subsection \<open>The bulk pass\<close>

lemma updateLocalPuzzleData_flags:
  "saveExposed (snd (updateLocalPuzzleData cs k r)) = saveExposed cs
   \<and> getExposed (snd (updateLocalPuzzleData cs k r)) = getExposed cs"
  by (simp add: updateLocalPuzzleData_def Let_def)


lemma bulkSyncPuzzle_saveExposed:
  "saveExposed (bclient (bulkSyncPuzzle cn sn remotePuzzles st k)) = saveExposed (bclient st)"
  by (simp add: bulkSyncPuzzle_def Let_def split_def updateLocalPuzzleData_flags
      split: bulk_action.splits option.splits)





lemma loop_saveExposed:
  "saveExposed (bclient (bulkSyncLoop cn sn remotePuzzles st ks)) = saveExposed (bclient st)"
  unfolding bulkSyncLoop_def
  by (induction ks arbitrary: st) (simp_all add: bulkSyncPuzzle_saveExposed)





subsection \<open>The local progress store\<close>

text \<open>
  Claim C9 does not hold for the store as a whole: the row the server saved for an
  untouched puzzle is written by the next bulk download as it is, a record with no
  entries, zero elapsed seconds and status not-started.
\<close>

theorem bulk_download_stores_not_started:
  "storeInvariant (localStore (bclient freshPass))
   \<and> syncHandler 1763634601000 [] untouchedRequest = (SAVED True, [untouchedRow])
   \<and> syncBulkHandler [untouchedRow] [''2025-11-20-5x5''] ''2025-11-20-5x5'' = Some untouchedRow
   \<and> localStore (bclient (bulkSyncLoop 1763634700000 1763634701000
         (syncBulkHandler [untouchedRow] [''2025-11-20-5x5'']) freshPass
         [''2025-11-20-5x5''])) ''2025-11-20-5x5'' = Some untouchedRecord
   \<and> emptyNotStarted untouchedRecord"
proof -
  have a: "storeInvariant (localStore (bclient freshPass))"
    by (simp add: storeInvariant_def freshPass_def exampleClient_def)
  have b: "syncHandler 1763634601000 [] untouchedRequest = (SAVED True, [untouchedRow])"
    by (simp add: syncHandler_def validRequest_def clientHasProgress_def Let_def upsert_def
        rowOfRequest_def untouchedRequest_def untouchedRow_def entriesOf_def)
  have c: "syncBulkHandler [untouchedRow] [''2025-11-20-5x5'']
             = [''2025-11-20-5x5'' \<mapsto> untouchedRow]"
    by (simp add: syncBulkHandler_def untouchedRow_def)
  have d: "localStore (bclient (bulkSyncLoop 1763634700000 1763634701000
         [''2025-11-20-5x5'' \<mapsto> untouchedRow] freshPass
         [''2025-11-20-5x5''])) ''2025-11-20-5x5'' = Some untouchedRecord"
    by (simp add: bulkSyncLoop_def bulkSyncPuzzle_def Let_def bulkAction_def split_def
        updateLocalPuzzleData_def savePuzzleProgressRecord_def recordToSave_def
        getLocalPuzzleData_def getPuzzleProgressRecord_def localHasProgress_def
        freshPass_def exampleClient_def untouchedRow_def untouchedRecord_def entriesOf_def)
  have e: "emptyNotStarted untouchedRecord"
    by (simp add: emptyNotStarted_def untouchedRecord_def)
  show ?thesis using a b c d e by simp
qed

lemma storageKeyOf_not_Nil: "storageKeyOf tk app = Some k \<Longrightarrow> k \<noteq> []"
  by (auto simp: storageKeyOf_def split: option.splits list.splits)

text \<open>What \<open>persistActivePuzzle\<close> leaves at its key, and that it leaves every other key.\<close>

lemma persistActivePuzzle_at_key:
  assumes "storageKeyOf targetKey app = Some k" and "activeState app \<noteq> None"
  shows "progressStore (persistActivePuzzle now statusOverride targetKey app) k =
         (if resolveStatus now statusOverride app = ''not-started'' then None
          else Some \<lparr> rec_id = k,
                      progress_record.status = resolveStatus now statusOverride app,
                      entries = collectPuzzleEntries (activeState app),
                      elapsedSeconds = getCurrentElapsedSeconds now app,
                      updatedAt = now \<rparr>)"
  using assms storageKeyOf_not_Nil [OF assms(1)]
  by (auto simp: persistActivePuzzle_def Let_def savePuzzleProgressRecord_def
      deletePuzzleProgressRecord_def)

lemma persistActivePuzzle_other_keys:
  assumes "storageKeyOf targetKey app \<noteq> Some k'"
  shows "progressStore (persistActivePuzzle now statusOverride targetKey app) k'
           = progressStore app k'"
  using assms
  by (auto simp: persistActivePuzzle_def Let_def savePuzzleProgressRecord_def
      deletePuzzleProgressRecord_def split: option.splits)

lemma persistActivePuzzle_returns:
  assumes "storageKeyOf targetKey app = None \<or> activeState app = None"
  shows "persistActivePuzzle now statusOverride targetKey app = app"
  using assms by (auto simp: persistActivePuzzle_def split: option.splits)

lemma persistActivePuzzle_invariant:
  assumes "storeInvariant (progressStore app)"
  shows "storeInvariant (progressStore (persistActivePuzzle now statusOverride targetKey app))"
  unfolding storeInvariant_def
proof (intro allI impI)
  fix k' r
  assume r: "progressStore (persistActivePuzzle now statusOverride targetKey app) k' = Some r"
  show "\<not> emptyNotStarted r"
  proof (cases "storageKeyOf targetKey app = Some k' \<and> activeState app \<noteq> None")
    case True
    then show ?thesis
      using r persistActivePuzzle_at_key [of targetKey app k' now statusOverride]
      by (auto simp: emptyNotStarted_def split: if_splits)
  next
    case False
    then have "progressStore (persistActivePuzzle now statusOverride targetKey app) k'
                 = progressStore app k'"
      using persistActivePuzzle_other_keys [of targetKey app k' now statusOverride]
        persistActivePuzzle_returns [of targetKey app now statusOverride]
      by (cases "storageKeyOf targetKey app = Some k'") auto
    then show ?thesis using r assms by (simp add: storeInvariant_def)
  qed
qed

text \<open>
  Claim C9, amended. \<open>persistActivePuzzle\<close> never writes a record with status not-started.
  Whatever the store held before, for the key it persists: when the status it resolves is
  not-started, the record of the key is deleted, also a record with no entries, zero
  elapsed seconds and status not-started that a download had put there; otherwise the
  record of the key is the one built from the grid, the timer and the resolved status,
  which is not not-started. Every other key is left as it was, and a call without a key
  or without an active grid changes nothing. So a store that is free of records with no
  entries, zero elapsed seconds and status not-started stays free of them.
\<close>

theorem persistActivePuzzle_never_stores_not_started:
  "(storageKeyOf targetKey app = Some k \<and> activeState app \<noteq> None \<longrightarrow>
      progressStore (persistActivePuzzle now statusOverride targetKey app) k =
        (if resolveStatus now statusOverride app = ''not-started'' then None
         else Some \<lparr> rec_id = k,
                     progress_record.status = resolveStatus now statusOverride app,
                     entries = collectPuzzleEntries (activeState app),
                     elapsedSeconds = getCurrentElapsedSeconds now app,
                     updatedAt = now \<rparr>)
      \<and> (\<forall>r. progressStore (persistActivePuzzle now statusOverride targetKey app) k = Some r
             \<longrightarrow> progress_record.status r \<noteq> ''not-started'' \<and> \<not> emptyNotStarted r))
   \<and> (storageKeyOf targetKey app \<noteq> Some k' \<longrightarrow>
        progressStore (persistActivePuzzle now statusOverride targetKey app) k'
          = progressStore app k')
   \<and> (storageKeyOf targetKey app = None \<or> activeState app = None \<longrightarrow>
        persistActivePuzzle now statusOverride targetKey app = app)
   \<and> (storeInvariant (progressStore app) \<longrightarrow>
        storeInvariant (progressStore (persistActivePuzzle now statusOverride targetKey app)))"
proof -
  have a: "progressStore (persistActivePuzzle now statusOverride targetKey app) k =
        (if resolveStatus now statusOverride app = ''not-started'' then None
         else Some \<lparr> rec_id = k,
                     progress_record.status = resolveStatus now statusOverride app,
                     entries = collectPuzzleEntries (activeState app),
                     elapsedSeconds = getCurrentElapsedSeconds now app,
                     updatedAt = now \<rparr>)
      \<and> (\<forall>r. progressStore (persistActivePuzzle now statusOverride targetKey app) k = Some r
             \<longrightarrow> progress_record.status r \<noteq> ''not-started'' \<and> \<not> emptyNotStarted r)"
    if "storageKeyOf targetKey app = Some k" and "activeState app \<noteq> None"
    using persistActivePuzzle_at_key [OF that, of now statusOverride]
    by (auto simp: emptyNotStarted_def split: if_splits)
  show ?thesis
    using a persistActivePuzzle_other_keys [of targetKey app k' now statusOverride]
      persistActivePuzzle_returns [of targetKey app now statusOverride]
      persistActivePuzzle_invariant [of app now statusOverride targetKey]
    by blast
qed

theorem persistActivePuzzle_never_stores_not_started_witness:
  "storageKeyOf None (blankApp\<lparr>progressStore := [''2025-11-20-5x5'' \<mapsto> untouchedRecord]\<rparr>)
     = Some ''2025-11-20-5x5''
   \<and> activeState blankApp \<noteq> None
   \<and> emptyNotStarted untouchedRecord
   \<and> resolveStatus 1763634800000 (Some ''paused'')
        (blankApp\<lparr>progressStore := [''2025-11-20-5x5'' \<mapsto> untouchedRecord]\<rparr>) = ''not-started''
   \<and> progressStore (persistActivePuzzle 1763634800000 (Some ''paused'') None
        (blankApp\<lparr>progressStore := [''2025-11-20-5x5'' \<mapsto> untouchedRecord]\<rparr>))
        ''2025-11-20-5x5'' = None
   \<and> storageKeyOf None (pausedApp\<lparr>progressStore := [''2025-11-19-5x5'' \<mapsto> newerLocalRecord]\<rparr>)
       = Some ''2025-11-20-5x5''
   \<and> progressStore (persistActivePuzzle 1763634800000 (Some ''paused'') None
        (pausedApp\<lparr>progressStore := [''2025-11-19-5x5'' \<mapsto> newerLocalRecord]\<rparr>))
        ''2025-11-20-5x5''
       = Some \<lparr> rec_id = ''2025-11-20-5x5'', progress_record.status = ''paused'',
                entries = [(''0-0'', ''A''), (''1-0'', ''B''), (''1-1'', ''C'')],
                elapsedSeconds = 75, updatedAt = 1763634800000 \<rparr>
   \<and> progressStore (persistActivePuzzle 1763634800000 (Some ''paused'') None
        (pausedApp\<lparr>progressStore := [''2025-11-19-5x5'' \<mapsto> newerLocalRecord]\<rparr>))
        ''2025-11-19-5x5'' = Some newerLocalRecord
   \<and> storeInvariant (progressStore (persistActivePuzzle 1763634800000 (Some ''paused'') None
        (pausedApp\<lparr>progressStore := [''2025-11-19-5x5'' \<mapsto> newerLocalRecord]\<rparr>)))"
proof -
  let ?blank = "blankApp\<lparr>progressStore := [''2025-11-20-5x5'' \<mapsto> untouchedRecord]\<rparr>"
  let ?paused = "pausedApp\<lparr>progressStore := [''2025-11-19-5x5'' \<mapsto> newerLocalRecord]\<rparr>"
  have k1: "storageKeyOf None ?blank = Some ''2025-11-20-5x5''"
    by (simp add: storageKeyOf_def blankApp_def)
  have a1: "activeState ?blank \<noteq> None" "activeState blankApp \<noteq> None"
    by (simp_all add: blankApp_def)
  have e: "emptyNotStarted untouchedRecord"
    by (simp add: emptyNotStarted_def untouchedRecord_def)
  have r1: "resolveStatus 1763634800000 (Some ''paused'') ?blank = ''not-started''"
    by (simp add: resolveStatus_def blankApp_def collectPuzzleEntries_def
        getCurrentElapsedSeconds_def Let_def)
  have k2: "storageKeyOf None ?paused = Some ''2025-11-20-5x5''"
    by (simp add: storageKeyOf_def pausedApp_def)
  have a2: "activeState ?paused \<noteq> None" by (simp add: pausedApp_def)
  have c2: "collectPuzzleEntries (activeState ?paused)
              = [(''0-0'', ''A''), (''1-0'', ''B''), (''1-1'', ''C'')]"
    "getCurrentElapsedSeconds 1763634800000 ?paused = 75"
    by (simp_all add: collectPuzzleEntries_def getCurrentElapsedSeconds_def pausedApp_def)
  have r2: "resolveStatus 1763634800000 (Some ''paused'') ?paused = ''paused''"
    by (simp add: resolveStatus_def pausedApp_def collectPuzzleEntries_def
        getCurrentElapsedSeconds_def Let_def)
  have o2: "storageKeyOf None ?paused \<noteq> Some ''2025-11-19-5x5''"
    by (simp add: k2)
  have i2: "storeInvariant (progressStore ?paused)"
    by (simp add: storeInvariant_def emptyNotStarted_def newerLocalRecord_def)
  have p2: "progressStore ?paused ''2025-11-19-5x5'' = Some newerLocalRecord" by simp
  from persistActivePuzzle_never_stores_not_started [where targetKey = None and app = ?blank
      and k = "''2025-11-20-5x5''" and now = 1763634800000 and statusOverride = "Some ''paused''"]
    persistActivePuzzle_never_stores_not_started [where targetKey = None and app = ?paused
      and k = "''2025-11-20-5x5''" and k' = "''2025-11-19-5x5''" and now = 1763634800000
      and statusOverride = "Some ''paused''"]
  show ?thesis
    using k1 a1 e r1 k2 a2 c2 r2 o2 i2 p2 by simp
qed

end
